theory Spec2Isabelle
  imports Main
begin

unbundle bit_operations_syntax

section \<open>Python values used by the client\<close>

text \<open>
  The module \<^verbatim>\<open>surveygizmo.py\<close> is a thin REST client. Its credentials and options are
  Python strings or \<^verbatim>\<open>None\<close>; they are modelled as \<open>string option\<close>. A Python 2
  \<^verbatim>\<open>str\<close> is a byte string, which is what \<open>string\<close> (a list of 8-bit characters) is.
\<close>

text \<open>Truthiness of a string-or-None, as tested by \<^verbatim>\<open>if not self.username\<close>.\<close>

definition truthy :: "string option \<Rightarrow> bool" where
  "truthy v = (case v of None \<Rightarrow> False | Some s \<Rightarrow> s \<noteq> [])"

text \<open>The conversion \<^verbatim>\<open>"%s" % v\<close> of a string-or-None.\<close>

definition fmt_s :: "string option \<Rightarrow> string" where
  "fmt_s v = (case v of None \<Rightarrow> ''None'' | Some s \<Rightarrow> s)"

text \<open>The conversion \<^verbatim>\<open>"%d" % i\<close> of a non-negative integer: decimal digits, no padding.\<close>

definition digit_char :: "nat \<Rightarrow> char" where
  "digit_char k = ''0123456789'' ! k"

fun string_of_nat :: "nat \<Rightarrow> string" where
  "string_of_nat n =
     (if n < 10 then [digit_char n]
      else string_of_nat (n div 10) @ [digit_char (n mod 10)])"

declare string_of_nat.simps [simp del]

text \<open>
  The arguments of \<^verbatim>\<open>add_filter\<close> are arbitrary Python objects that the method passes
  through \<^verbatim>\<open>str()\<close>. The values a caller passes in practice are strings, integers,
  booleans and \<^verbatim>\<open>None\<close>.
\<close>

datatype pyval = PNone | PBool bool | PInt int | PStr string

fun py_str :: "pyval \<Rightarrow> string" where
  "py_str PNone = ''None''"
| "py_str (PBool b) = (if b then ''True'' else ''False'')"
| "py_str (PInt i) = (if i < 0 then ''-'' @ string_of_nat (nat (- i)) else string_of_nat (nat i))"
| "py_str (PStr s) = s"

fun py_truthy :: "pyval \<Rightarrow> bool" where
  "py_truthy PNone = False"
| "py_truthy (PBool b) = b"
| "py_truthy (PInt i) = (i \<noteq> 0)"
| "py_truthy (PStr s) = (s \<noteq> [])"

section \<open>The MD5 digest of the standard library\<close>

text \<open>
  \<^verbatim>\<open>hashlib.md5(data).hexdigest()\<close> belongs to the Python standard library, not to this
  repository. It computes the MD5 message digest of RFC 1321 and prints it as 32 lowercase
  hexadecimal digits. The functions below follow the RFC: 32-bit words are natural numbers
  with the wrap-around written out, bytes are natural numbers below 256.
\<close>

definition md5_K :: "nat list" where
  "md5_K = [
    0xd76aa478, 0xe8c7b756, 0x242070db, 0xc1bdceee, 0xf57c0faf, 0x4787c62a, 0xa8304613, 0xfd469501,
    0x698098d8, 0x8b44f7af, 0xffff5bb1, 0x895cd7be, 0x6b901122, 0xfd987193, 0xa679438e, 0x49b40821,
    0xf61e2562, 0xc040b340, 0x265e5a51, 0xe9b6c7aa, 0xd62f105d, 0x02441453, 0xd8a1e681, 0xe7d3fbc8,
    0x21e1cde6, 0xc33707d6, 0xf4d50d87, 0x455a14ed, 0xa9e3e905, 0xfcefa3f8, 0x676f02d9, 0x8d2a4c8a,
    0xfffa3942, 0x8771f681, 0x6d9d6122, 0xfde5380c, 0xa4beea44, 0x4bdecfa9, 0xf6bb4b60, 0xbebfbc70,
    0x289b7ec6, 0xeaa127fa, 0xd4ef3085, 0x04881d05, 0xd9d4d039, 0xe6db99e5, 0x1fa27cf8, 0xc4ac5665,
    0xf4292244, 0x432aff97, 0xab9423a7, 0xfc93a039, 0x655b59c3, 0x8f0ccc92, 0xffeff47d, 0x85845dd1,
    0x6fa87e4f, 0xfe2ce6e0, 0xa3014314, 0x4e0811a1, 0xf7537e82, 0xbd3af235, 0x2ad7d2bb, 0xeb86d391]"

definition md5_s :: "nat list" where
  "md5_s = [7, 12, 17, 22, 7, 12, 17, 22, 7, 12, 17, 22, 7, 12, 17, 22,
            5, 9, 14, 20, 5, 9, 14, 20, 5, 9, 14, 20, 5, 9, 14, 20,
            4, 11, 16, 23, 4, 11, 16, 23, 4, 11, 16, 23, 4, 11, 16, 23,
            6, 10, 15, 21, 6, 10, 15, 21, 6, 10, 15, 21, 6, 10, 15, 21]"

definition add32 :: "nat \<Rightarrow> nat \<Rightarrow> nat" where
  "add32 x y = (x + y) mod 4294967296"

definition not32 :: "nat \<Rightarrow> nat" where
  "not32 x = 4294967295 - x mod 4294967296"

definition rotl32 :: "nat \<Rightarrow> nat \<Rightarrow> nat" where
  "rotl32 x n = (x * 2 ^ n) mod 4294967296 + x div 2 ^ (32 - n)"

definition md5_f :: "nat \<Rightarrow> nat \<Rightarrow> nat \<Rightarrow> nat \<Rightarrow> nat" where
  "md5_f i b c d =
     (if i < 16 then (b AND c) OR (not32 b AND d)
      else if i < 32 then (d AND b) OR (not32 d AND c)
      else if i < 48 then b XOR c XOR d
      else c XOR (b OR not32 d))"

definition md5_g :: "nat \<Rightarrow> nat" where
  "md5_g i =
     (if i < 16 then i
      else if i < 32 then (5 * i + 1) mod 16
      else if i < 48 then (3 * i + 5) mod 16
      else (7 * i) mod 16)"

fun md5_step :: "nat list \<Rightarrow> nat \<Rightarrow> nat \<times> nat \<times> nat \<times> nat \<Rightarrow> nat \<times> nat \<times> nat \<times> nat" where
  "md5_step M i (a, b, c, d) =
     (d,
      add32 b (rotl32 (add32 (add32 (add32 (md5_f i b c d) a) (md5_K ! i)) (M ! md5_g i))
                      (md5_s ! i)),
      b, c)"

definition md5_word :: "nat list \<Rightarrow> nat" where
  "md5_word bs = bs ! 0 + 256 * bs ! 1 + 65536 * bs ! 2 + 16777216 * bs ! 3"

fun md5_block :: "nat \<times> nat \<times> nat \<times> nat \<Rightarrow> nat list \<Rightarrow> nat \<times> nat \<times> nat \<times> nat" where
  "md5_block (a0, b0, c0, d0) blk =
     (case fold (md5_step (map (\<lambda>k. md5_word (take 4 (drop (4 * k) blk))) [0..<16]))
                [0..<64] (a0, b0, c0, d0) of
        (a, b, c, d) \<Rightarrow> (add32 a0 a, add32 b0 b, add32 c0 c, add32 d0 d))"

definition le_bytes :: "nat \<Rightarrow> nat \<Rightarrow> nat list" where
  "le_bytes n x = map (\<lambda>k. (x div 256 ^ k) mod 256) [0..<n]"

definition md5_pad :: "nat list \<Rightarrow> nat list" where
  "md5_pad m = m @ [128] @ replicate ((119 - length m mod 64) mod 64) 0
                 @ le_bytes 8 ((8 * length m) mod 2 ^ 64)"

definition md5_digest :: "nat list \<Rightarrow> nat list" where
  "md5_digest m =
     (case fold (\<lambda>blk st. md5_block st blk)
             (map (\<lambda>k. take 64 (drop (64 * k) (md5_pad m))) [0..<length (md5_pad m) div 64])
             (0x67452301, 0xefcdab89, 0x98badcfe, 0x10325476) of
        (a, b, c, d) \<Rightarrow> concat (map (le_bytes 4) [a, b, c, d]))"

definition hex_byte :: "nat \<Rightarrow> string" where
  "hex_byte b = [''0123456789abcdef'' ! (b div 16), ''0123456789abcdef'' ! (b mod 16)]"

definition md5_hexdigest :: "string \<Rightarrow> string" where
  "md5_hexdigest s = concat (map hex_byte (md5_digest (map of_char s)))"

section \<open>Configuration\<close>

datatype error =
    ImproperlyConfigured string
  | AttributeError string
  | RecursionError
  | TypeError string
  | ValueError string
  | KeyError string
  | ConnectionError string
  | HTTPError nat string

text \<open>
  The attributes of \<^verbatim>\<open>_Config\<close>. The back reference \<^verbatim>\<open>_sg\<close> to the facade is never
  read by the configuration itself and is left out.
\<close>

record Config =
  api_version :: "string option"
  auth_method :: "string option"
  username :: "string option"
  password :: "string option"
  md5_hash :: "string option"
  consumer_key :: "string option"
  consumer_secret :: "string option"
  access_token :: "string option"
  access_token_secret :: "string option"
  response_type :: "string option"
  requests_kwargs :: "(string \<times> string) list"

text \<open>
  \<^verbatim>\<open>_Config.__init__\<close>: every option comes from the keyword arguments with
  \<^verbatim>\<open>kwargs.get(name, default)\<close>. A keyword may be passed as \<^verbatim>\<open>None\<close> explicitly, so the
  string options are a map into \<open>string option\<close>; the transport options are a separate
  argument because they are a dictionary, not a string.
\<close>

definition kwargs_get :: "(string \<rightharpoonup> string option) \<Rightarrow> string \<Rightarrow> string option \<Rightarrow> string option" where
  "kwargs_get kwargs name dflt = (case kwargs name of None \<Rightarrow> dflt | Some v \<Rightarrow> v)"

definition Config_init :: "(string \<rightharpoonup> string option) \<Rightarrow> (string \<times> string) list option \<Rightarrow> Config" where
  "Config_init kwargs rk =
     \<lparr> api_version = kwargs_get kwargs ''api_version'' (Some ''head''),
       auth_method = kwargs_get kwargs ''auth_method'' None,
       username = kwargs_get kwargs ''username'' None,
       password = kwargs_get kwargs ''password'' None,
       md5_hash = kwargs_get kwargs ''md5_hash'' None,
       consumer_key = kwargs_get kwargs ''consumer_key'' None,
       consumer_secret = kwargs_get kwargs ''consumer_secret'' None,
       access_token = kwargs_get kwargs ''access_token'' None,
       access_token_secret = kwargs_get kwargs ''access_token_secret'' None,
       response_type = kwargs_get kwargs ''response_type'' None,
       requests_kwargs = (case rk of None \<Rightarrow> [] | Some d \<Rightarrow> d) \<rparr>"

text \<open>
  \<^verbatim>\<open>_Config.validate\<close>. The first \<^verbatim>\<open>if\<close>/\<^verbatim>\<open>else\<close> block either raises or falls through
  to the check of \<^verbatim>\<open>response_type\<close>; a raise is \<open>Inl\<close>, falling through is \<open>Inr ()\<close>.
\<close>

definition validate :: "Config \<Rightarrow> error + unit" where
  "validate c =
     (case
        (if auth_method c \<notin> set [Some ''user:pass'', Some ''user:md5'', Some ''oauth'']
         then Inl (ImproperlyConfigured ''No authentication method provided.'')
         else if auth_method c = Some ''user:pass''
         then (if \<not> truthy (username c) \<or> \<not> truthy (password c)
               then Inl (ImproperlyConfigured
                      ''Username and password for 'user:pass' authentication.'')
               else Inr ())
         else if auth_method c = Some ''user:md5''
         then (if \<not> truthy (username c)
               then Inl (ImproperlyConfigured
                      ''Username required for 'user:md5' authentication.'')
               else if \<not> truthy (password c) \<and> \<not> truthy (md5_hash c)
               then Inl (ImproperlyConfigured
                      ''Password or md5 hash of password required for 'user:md5' authentication.'')
               else Inr ())
         else if auth_method c = Some ''oauth''
         then (if \<not> truthy (consumer_key c) \<or> \<not> truthy (consumer_secret c)
                  \<or> \<not> truthy (access_token c) \<or> \<not> truthy (access_token_secret c)
               then Inl (ImproperlyConfigured
                      ''OAuth consumer key and secret, and OAuth access token and secret required for 'oauth' authentication.'')
               else Inr ())
         else Inr ())
      of
        Inl e \<Rightarrow> Inl e
      | Inr u \<Rightarrow>
          (if response_type c \<notin> set [Some ''json'', Some ''pson'', Some ''xml'', Some ''debug'', None]
           then Inl (ImproperlyConfigured [])
           else Inr ()))"

section \<open>Dispatcher\<close>

text \<open>
  Query parameters are a Python dictionary from strings to strings. One accumulated filter
  is the three-entry dictionary literal built by \<^verbatim>\<open>add_filter\<close>, kept as the list of its
  items in the order of the literal.
\<close>

type_synonym params = "string \<rightharpoonup> string"
type_synonym pyfilter = "(string \<times> string) list"

text \<open>
  The instance attributes set by \<^verbatim>\<open>_API.__init__\<close>: \<^verbatim>\<open>_config\<close>, \<^verbatim>\<open>_filters\<close> and
  \<^verbatim>\<open>_session\<close>. The fourth, \<^verbatim>\<open>_resources\<close>, is set to \<^verbatim>\<open>None\<close> and never assigned
  again, so it needs no field. The configuration object is shared with the facade
  (\<^verbatim>\<open>SurveyGizmo.config\<close> and \<^verbatim>\<open>SurveyGizmo.api._config\<close> are the same object); the state
  holds its single copy. The type \<open>'s\<close> is the session object of the OAuth helper.
\<close>

record 's API =
  config :: Config
  filters :: "pyfilter list"
  session :: "'s option"

definition base_url :: string where
  "base_url = ''https://restapi.surveygizmo.com/''"

definition API_init :: "Config \<Rightarrow> 's API" where
  "API_init cfg = \<lparr> config = cfg, filters = [], session = None \<rparr>"

text \<open>\<^verbatim>\<open>SurveyGizmo.__init__\<close>: one configuration and one dispatcher bound to it.\<close>

definition SurveyGizmo_init :: "(string \<rightharpoonup> string option) \<Rightarrow> (string \<times> string) list option \<Rightarrow> 's API" where
  "SurveyGizmo_init kwargs rk = API_init (Config_init kwargs rk)"

subsection \<open>Attribute lookup\<close>

text \<open>
  The values an attribute of the dispatcher can hold. \<open>A_SurveyGizmo\<close> is the facade
  object, known by its configuration; \<open>A_Dict\<close> is a dictionary of module names.
\<close>

datatype 's attr =
    A_None
  | A_Str string
  | A_Config Config
  | A_List "pyfilter list"
  | A_Session 's
  | A_Method string
  | A_Module string
  | A_Dict "string \<rightharpoonup> string"
  | A_SurveyGizmo Config

text \<open>
  What normal lookup finds on a dispatcher: the instance attributes of \<^verbatim>\<open>__init__\<close>, the
  class attribute \<^verbatim>\<open>base_url\<close>, the methods of the class and the attributes every
  new-style object has.
\<close>

definition API_methods :: "string list" where
  "API_methods = [''__init__'', ''_import_api'', ''__getattr__'', ''_wrap'', ''add_filter'',
     ''prepare'', ''execute'', ''__class__'', ''__delattr__'', ''__dict__'', ''__doc__'',
     ''__format__'', ''__getattribute__'', ''__hash__'', ''__module__'', ''__new__'',
     ''__reduce__'', ''__reduce_ex__'', ''__repr__'', ''__setattr__'', ''__sizeof__'',
     ''__str__'', ''__subclasshook__'', ''__weakref__'']"

definition instance_attr :: "'s API \<Rightarrow> string \<Rightarrow> 's attr option" where
  "instance_attr api name =
     (if name = ''_config'' then Some (A_Config (config api))
      else if name = ''_resources'' then Some A_None
      else if name = ''_filters'' then Some (A_List (filters api))
      else if name = ''_session''
        then Some (case session api of None \<Rightarrow> A_None | Some s \<Rightarrow> A_Session s)
      else if name = ''base_url'' then Some (A_Str base_url)
      else if name \<in> set API_methods then Some (A_Method name)
      else None)"

text \<open>\<^verbatim>\<open>d.get(name, None)\<close> on an attribute value; only a dictionary has \<^verbatim>\<open>get\<close>.\<close>

fun attr_dict_get :: "'s attr \<Rightarrow> string \<Rightarrow> error + 's attr option" where
  "attr_dict_get (A_Dict m) name = Inr (map_option A_Module (m name))"
| "attr_dict_get v name = Inl (AttributeError ''get'')"

text \<open>
  Reading \<^verbatim>\<open>self.name\<close> on a dispatcher. Normal lookup comes first; when it finds
  nothing Python calls \<^verbatim>\<open>_API.__getattr__(name)\<close>, whose body reads \<^verbatim>\<open>self._modules\<close>,
  another attribute read. The first argument is the number of stack frames the interpreter
  still allows (its recursion limit): entering \<^verbatim>\<open>__getattr__\<close> with none left raises the
  interpreter's recursion error (\<^verbatim>\<open>RuntimeError\<close> in Python 2, its subclass
  \<^verbatim>\<open>RecursionError\<close> in Python 3).
\<close>

fun API_getattr :: "nat \<Rightarrow> 's API \<Rightarrow> string \<Rightarrow> error + 's attr" where
  "API_getattr 0 api name =
     (case instance_attr api name of Some v \<Rightarrow> Inr v | None \<Rightarrow> Inl RecursionError)"
| "API_getattr (Suc d) api name =
     (case instance_attr api name of
        Some v \<Rightarrow> Inr v
      | None \<Rightarrow>
          (case API_getattr d api ''_modules'' of
             Inl e \<Rightarrow> Inl e
           | Inr m \<Rightarrow>
               (case attr_dict_get m name of
                  Inl e \<Rightarrow> Inl e
                | Inr (Some v) \<Rightarrow>
                    (case API_getattr d api ''_modules'' of
                       Inl e \<Rightarrow> Inl e
                     | Inr m' \<Rightarrow>
                         (case attr_dict_get m' name of
                            Inl e \<Rightarrow> Inl e
                          | Inr (Some v') \<Rightarrow> Inr v'
                          | Inr None \<Rightarrow> Inl (KeyError name)))
                | Inr None \<Rightarrow> Inl (AttributeError name))))"

text \<open>Reading \<^verbatim>\<open>.config\<close> on an attribute value: only the facade has it.\<close>

fun attr_config :: "'s attr \<Rightarrow> error + Config" where
  "attr_config (A_SurveyGizmo c) = Inr c"
| "attr_config v = Inl (AttributeError ''config'')"

text \<open>
  \<^verbatim>\<open>"%s" % v\<close> on an attribute value. The text of an object without \<^verbatim>\<open>__str__\<close>
  contains its address; a fixed text stands for it.
\<close>

fun attr_str :: "'s attr \<Rightarrow> string" where
  "attr_str A_None = ''None''"
| "attr_str (A_Str s) = s"
| "attr_str v = ''<object>''"

subsection \<open>Filters and request preparation\<close>

definition filter_key :: "string \<Rightarrow> nat \<Rightarrow> string" where
  "filter_key part i = ''filter['' @ part @ '']['' @ string_of_nat i @ '']''"

text \<open>
  \<^verbatim>\<open>_API.add_filter\<close>: the index is the current length of the list, and the new
  dictionary is appended.
\<close>

definition add_filter :: "pyval \<Rightarrow> pyval \<Rightarrow> pyval \<Rightarrow> 's API \<Rightarrow> 's API" where
  "add_filter field operator val api =
     (let i = length (filters api)
      in api\<lparr>filters := filters api @
           [[(filter_key ''field'' i, py_str field),
             (filter_key ''operator'' i, py_str operator),
             (filter_key ''value'' i, py_str val)]]\<rparr>)"

text \<open>\<^verbatim>\<open>params.update(d)\<close>: the items of \<open>d\<close> are stored one after the other.\<close>

definition dict_update :: "pyfilter \<Rightarrow> params \<Rightarrow> params" where
  "dict_update d params = fold (\<lambda>(k, v) m. m(k \<mapsto> v)) d params"

text \<open>
  \<^verbatim>\<open>_API.prepare\<close>, with the digest function as its first argument. The result has three
  parts: what the call returns or raises, the dispatcher afterwards (its filter list, and
  its configuration, whose \<^verbatim>\<open>md5_hash\<close> the method may assign), and the caller's
  \<^verbatim>\<open>params\<close> dictionary afterwards, which the method updates in place. The returned
  dictionary is that same object. \<^verbatim>\<open>hashlib.md5(None)\<close> raises \<^verbatim>\<open>TypeError\<close>.
\<close>

definition prepare_with ::
  "(string \<Rightarrow> string) \<Rightarrow> string \<Rightarrow> params \<Rightarrow> bool \<Rightarrow> 's API
     \<Rightarrow> (error + string \<times> params) \<times> 's API \<times> params" where
  "prepare_with md5 tail params keep api =
     (case validate (config api) of
        Inl e \<Rightarrow> (Inl e, api, params)
      | Inr u \<Rightarrow>
          (let params1 = fold dict_update (filters api) params;
               api1 = (if \<not> keep then api\<lparr>filters := []\<rparr> else api);
               url = base_url @ tail
           in if auth_method (config api) = Some ''user:pass''
              then (let params2 = params1(''user:pass'' \<mapsto>
                            fmt_s (username (config api)) @ '':'' @ fmt_s (password (config api)))
                    in (Inr (url, params2), api1, params2))
              else if auth_method (config api) = Some ''user:md5''
              then (if \<not> truthy (md5_hash (config api))
                    then (case password (config api) of
                            None \<Rightarrow> (Inl (TypeError ''md5''), api1, params1)
                          | Some pw \<Rightarrow>
                              (let api2 = api1\<lparr>config := (config api)\<lparr>md5_hash := Some (md5 pw)\<rparr>\<rparr>;
                                   params2 = params1(''user:md5'' \<mapsto>
                                     fmt_s (username (config api)) @ '':'' @ md5 pw)
                               in (Inr (url, params2), api2, params2)))
                    else (let params2 = params1(''user:md5'' \<mapsto>
                                fmt_s (username (config api)) @ '':'' @ fmt_s (md5_hash (config api)))
                          in (Inr (url, params2), api1, params2)))
              else (Inr (url, params1), api1, params1)))"

definition prepare ::
  "string \<Rightarrow> params \<Rightarrow> bool \<Rightarrow> 's API \<Rightarrow> (error + string \<times> params) \<times> 's API \<times> params" where
  "prepare = prepare_with md5_hexdigest"

subsection \<open>Execution\<close>

text \<open>
  The HTTP transport (\<^verbatim>\<open>requests\<close>) and the OAuth helper are external. A response object
  is known by its status code, its \<^verbatim>\<open>text\<close> and what its \<^verbatim>\<open>json()\<close> returns or raises.
\<close>

datatype json =
    JNull
  | JBool bool
  | JInt int
  | JString string
  | JArray "json list"
  | JObject "(string \<times> json) list"

record response =
  status_code :: nat
  resp_text :: string
  resp_json :: "error + json"

text \<open>
  \<^verbatim>\<open>Response.raise_for_status\<close> of \<^verbatim>\<open>requests\<close>: an \<^verbatim>\<open>HTTPError\<close> for a client error
  (4xx) or a server error (5xx) status, nothing otherwise. The error carries the response.
\<close>

definition raise_for_status :: "response \<Rightarrow> error + unit" where
  "raise_for_status r =
     (if 400 \<le> status_code r \<and> status_code r < 600
      then Inl (HTTPError (status_code r) (resp_text r))
      else Inr ())"

text \<open>
  The three external operations: the plain \<^verbatim>\<open>requests.get\<close>, the helper's
  \<^verbatim>\<open>SGAuthService(...).get_session()\<close> and the session's \<^verbatim>\<open>get\<close>. Each may raise.
\<close>

record 's transport =
  requests_get :: "string \<Rightarrow> params \<Rightarrow> (string \<times> string) list \<Rightarrow> error + response"
  get_session :: "string option \<Rightarrow> string option \<Rightarrow> string option \<Rightarrow> string option \<Rightarrow> error + 's"
  session_get :: "'s \<Rightarrow> string \<Rightarrow> params \<Rightarrow> (string \<times> string) list \<Rightarrow> error + response"

datatype result = RJson json | RText string

text \<open>The request of \<^verbatim>\<open>_API.execute\<close>: which transport is used, and the session kept.\<close>

definition send_request ::
  "'s transport \<Rightarrow> string \<Rightarrow> params \<Rightarrow> 's API \<Rightarrow> (error + response) \<times> 's API" where
  "send_request T url params api =
     (if auth_method (config api) = Some ''oauth''
      then (case session api of
              None \<Rightarrow>
                (case get_session T (consumer_key (config api)) (consumer_secret (config api))
                        (access_token (config api)) (access_token_secret (config api)) of
                   Inl e \<Rightarrow> (Inl e, api)
                 | Inr s \<Rightarrow>
                     (session_get T s url params (requests_kwargs (config api)),
                      api\<lparr>session := Some s\<rparr>))
            | Some s \<Rightarrow> (session_get T s url params (requests_kwargs (config api)), api))
      else (requests_get T url params (requests_kwargs (config api)), api))"

text \<open>\<^verbatim>\<open>_API.execute\<close>.\<close>

definition execute ::
  "'s transport \<Rightarrow> string \<Rightarrow> params \<Rightarrow> 's API \<Rightarrow> (error + result) \<times> 's API" where
  "execute T url params api =
     (case send_request T url params api of
        (Inl e, api') \<Rightarrow> (Inl e, api')
      | (Inr r, api') \<Rightarrow>
          (case raise_for_status r of
             Inl e \<Rightarrow> (Inl e, api')
           | Inr u \<Rightarrow>
               (if \<not> truthy (response_type (config api))
                then (case resp_json r of
                        Inl e \<Rightarrow> (Inl e, api')
                      | Inr j \<Rightarrow> (Inr (RJson j), api'))
                else (Inr (RText (resp_text r)), api'))))"

subsection \<open>Wrapped resource callables\<close>

text \<open>
  A resource callable takes positional and keyword arguments and returns a tail and a
  parameter dictionary, or raises. A wrapped call returns either the prepared pair or
  what \<^verbatim>\<open>execute\<close> returns.
\<close>

type_synonym resource_func = "pyval list \<Rightarrow> (string \<rightharpoonup> pyval) \<Rightarrow> error + string \<times> params"

datatype call_result = Prepared string params | Executed result

text \<open>\<^verbatim>\<open>kwargs.pop(name, False)\<close>: the value read, and the dictionary without the key.\<close>

definition kwargs_pop :: "(string \<rightharpoonup> pyval) \<Rightarrow> string \<Rightarrow> pyval \<times> (string \<rightharpoonup> pyval)" where
  "kwargs_pop kwargs name =
     ((case kwargs name of None \<Rightarrow> PBool False | Some v \<Rightarrow> v), kwargs(name := None))"

text \<open>
  The \<^verbatim>\<open>wrapper\<close> closure returned by \<^verbatim>\<open>_API._wrap(func)\<close>, applied to its arguments. The
  first argument bounds the interpreter's stack as in \<open>API_getattr\<close>.
\<close>

definition wrapper ::
  "nat \<Rightarrow> 's transport \<Rightarrow> resource_func \<Rightarrow> pyval list \<Rightarrow> (string \<rightharpoonup> pyval) \<Rightarrow> 's API
     \<Rightarrow> (error + call_result) \<times> 's API" where
  "wrapper d T func args kwargs api =
     (case kwargs_pop kwargs ''keep'' of (keep, kwargs1) \<Rightarrow>
      case kwargs_pop kwargs1 ''url_fetch'' of (url_fetch, kwargs2) \<Rightarrow>
      case func args kwargs2 of
        Inl e \<Rightarrow> (Inl e, api)
      | Inr (tail, params) \<Rightarrow>
          (case API_getattr d api ''_sg'' of
             Inl e \<Rightarrow> (Inl e, api)
           | Inr sg \<Rightarrow>
               (case attr_config sg of
                  Inl e \<Rightarrow> (Inl e, api)
                | Inr cfg \<Rightarrow>
                    (let tail1 = (if truthy (response_type cfg)
                                  then tail @ ''.'' @ fmt_s (response_type cfg) else tail)
                     in case API_getattr d api ''_api_version'' of
                          Inl e \<Rightarrow> (Inl e, api)
                        | Inr ver \<Rightarrow>
                            (case prepare (attr_str ver @ ''/'' @ tail1) params (py_truthy keep) api of
                               (Inl e, api1, params1) \<Rightarrow> (Inl e, api1)
                             | (Inr (url, params2), api1, params1) \<Rightarrow>
                                 (if py_truthy url_fetch
                                  then (Inr (Prepared url params2), api1)
                                  else (case execute T url params2 api1 of
                                          (Inl e, api2) \<Rightarrow> (Inl e, api2)
                                        | (Inr r, api2) \<Rightarrow> (Inr (Executed r), api2))))))))"

section \<open>Auxiliary definitions for the statements\<close>

text \<open>
  The conditions under which the specification says \<^verbatim>\<open>validate()\<close> fails, written from
  its words. A field is empty when it is \<^verbatim>\<open>None\<close> or the empty string.
\<close>

definition empty_field :: "string option \<Rightarrow> bool" where
  "empty_field v \<longleftrightarrow> v = None \<or> v = Some []"

definition spec_invalid :: "Config \<Rightarrow> bool" where
  "spec_invalid c \<longleftrightarrow>
     auth_method c \<notin> {Some ''user:pass'', Some ''user:md5'', Some ''oauth''}
   \<or> (auth_method c = Some ''user:pass'' \<and> (empty_field (username c) \<or> empty_field (password c)))
   \<or> (auth_method c = Some ''user:md5''
        \<and> (empty_field (username c) \<or> (empty_field (password c) \<and> empty_field (md5_hash c))))
   \<or> (auth_method c = Some ''oauth''
        \<and> (empty_field (consumer_key c) \<or> empty_field (consumer_secret c)
           \<or> empty_field (access_token c) \<or> empty_field (access_token_secret c)))
   \<or> response_type c \<notin> {Some ''json'', Some ''pson'', Some ''xml'', Some ''debug'', None}"

text \<open>Calling \<^verbatim>\<open>add_filter\<close> once for each triple of a list, in order.\<close>

fun add_filters :: "(pyval \<times> pyval \<times> pyval) list \<Rightarrow> 's API \<Rightarrow> 's API" where
  "add_filters [] api = api"
| "add_filters ((field, operator, val) # ts) api = add_filters ts (add_filter field operator val api)"

text \<open>The dictionary literal that \<^verbatim>\<open>add_filter\<close> appends for index \<open>i\<close>.\<close>

definition filter_entry :: "nat \<Rightarrow> pyval \<times> pyval \<times> pyval \<Rightarrow> pyfilter" where
  "filter_entry i t =
     (case t of (field, operator, val) \<Rightarrow>
        [(filter_key ''field'' i, py_str field),
         (filter_key ''operator'' i, py_str operator),
         (filter_key ''value'' i, py_str val)])"

text \<open>
  Example objects: the facade built with the keyword arguments \<^verbatim>\<open>auth_method\<close>,
  \<^verbatim>\<open>username="bob"\<close> and \<^verbatim>\<open>password\<close>, then one call of \<^verbatim>\<open>add_filter\<close>; a parameter
  dictionary; two filter triples.
\<close>

definition example_kwargs :: "string \<Rightarrow> string \<Rightarrow> (string \<rightharpoonup> string option)" where
  "example_kwargs method pw =
     [''auth_method'' \<mapsto> Some method, ''username'' \<mapsto> Some ''bob'', ''password'' \<mapsto> Some pw]"

definition example_api :: "string \<Rightarrow> nat API" where
  "example_api method =
     add_filter (PStr ''status'') (PStr ''='') (PStr ''Complete'')
       (SurveyGizmo_init (example_kwargs method ''secret'') None)"

definition example_params :: params where
  "example_params = [''page'' \<mapsto> ''2'']"

definition example_filters :: "(pyval \<times> pyval \<times> pyval) list" where
  "example_filters = [(PStr ''status'', PStr ''='', PStr ''Complete''), (PStr ''id'', PStr ''>'', PInt 12)]"

text \<open>
  The specification's example configuration (\<^verbatim>\<open>user:md5\<close>, user \<^verbatim>\<open>bob\<close>, password
  \<^verbatim>\<open>secret\<close>), and the same without a user name.
\<close>

definition example_md5_api :: "nat API" where
  "example_md5_api = SurveyGizmo_init (example_kwargs ''user:md5'' ''secret'') None"

definition example_nouser_api :: "nat API" where
  "example_nouser_api =
     SurveyGizmo_init [''auth_method'' \<mapsto> Some ''user:md5'', ''password'' \<mapsto> Some ''secret''] None"

text \<open>
  A facade with a given \<^verbatim>\<open>response_type\<close>; a response with status 200 and a JSON body;
  a transport stub that answers every request with a given response; a resource callable
  that returns the tail \<^verbatim>\<open>survey\<close> and no parameters, and rejects the two reserved
  keyword arguments as any Python function without them in its signature does.
\<close>

definition example_plain_api :: "string option \<Rightarrow> nat API" where
  "example_plain_api rt =
     SurveyGizmo_init ((example_kwargs ''user:pass'' ''secret'')(''response_type'' \<mapsto> rt)) None"

definition example_response :: response where
  \<open>example_response =
     \<lparr> status_code = 200, resp_text = ''{"result":1}'',
       resp_json = Inr (JObject [(''result'', JInt 1)]) \<rparr>\<close>

definition example_transport :: "response \<Rightarrow> nat transport" where
  "example_transport r =
     \<lparr> requests_get = (\<lambda>url params kw. Inr r),
       get_session = (\<lambda>ck cs at ats. Inr 0),
       session_get = (\<lambda>s url params kw. Inr r) \<rparr>"

definition example_func :: resource_func where
  "example_func args kwargs =
     (if kwargs ''keep'' = None \<and> kwargs ''url_fetch'' = None
      then Inr (''survey'', Map.empty) else Inl (TypeError ''unexpected keyword argument''))"

section \<open>Validation\<close>

lemma truthy_iff: "truthy v \<longleftrightarrow> \<not> empty_field v"
  by (cases v) (simp_all add: truthy_def empty_field_def)

lemma validate_Inr_iff: "validate c = Inr () \<longleftrightarrow> \<not> spec_invalid c"
  unfolding validate_def spec_invalid_def truthy_iff
  by (simp split: sum.splits) 

lemma validate_Inl_cases: "validate c = Inl e \<Longrightarrow> \<exists>msg. e = ImproperlyConfigured msg"
  unfolding validate_def
  by (auto split: sum.splits if_splits)
lemma validate_valid_cases:
  assumes "validate c = Inr ()"
  shows "auth_method c = Some ''user:pass'' \<and> truthy (username c) \<and> truthy (password c)
       \<or> auth_method c = Some ''user:md5'' \<and> truthy (username c)
            \<and> (truthy (password c) \<or> truthy (md5_hash c))
       \<or> auth_method c = Some ''oauth''"
  using assms unfolding validate_def
  by (auto split: sum.splits if_splits)

lemma truthy_Some: "truthy v \<Longrightarrow> \<exists>s. v = Some s \<and> s \<noteq> []"
  by (cases v) (simp_all add: truthy_def)

lemma valid_md5_password:
  assumes "validate c = Inr ()" and "auth_method c = Some ''user:md5''" and "\<not> truthy (md5_hash c)"
  shows "\<exists>pw. password c = Some pw \<and> pw \<noteq> []"
  using validate_valid_cases [OF assms(1)] assms(2,3) truthy_Some [of "password c"]
  by auto
lemmas example_defs = example_api_def example_kwargs_def example_params_def SurveyGizmo_init_def
  API_init_def Config_init_def kwargs_get_def add_filter_def filter_key_def
  string_of_nat.simps digit_char_def

lemma example_valid_pass: "validate (config (example_api ''user:pass'')) = Inr ()"
  by (simp add: example_defs validate_def truthy_def Let_def)

lemma example_invalid: "validate (config (example_api ''token'')) = Inl (ImproperlyConfigured ''No authentication method provided.'')"
  by (simp add: example_defs validate_def truthy_def Let_def)

lemma example_valid_md5: "validate (config (example_api ''user:md5'')) = Inr ()"
  by (simp add: example_defs validate_def truthy_def Let_def)

text \<open>
  Claim C1. \<^verbatim>\<open>validate()\<close> raises \<^verbatim>\<open>ImproperlyConfigured\<close> if and only if one of the
  conditions listed by the specification holds (unrecognised \<^verbatim>\<open>auth_method\<close>; a missing
  user name or password for \<^verbatim>\<open>user:pass\<close>; a missing user name, or neither password nor
  hash, for \<^verbatim>\<open>user:md5\<close>; a missing OAuth credential for \<^verbatim>\<open>oauth\<close>; a
  \<^verbatim>\<open>response_type\<close> outside json, pson, xml, debug and unset), and it succeeds on every
  configuration that violates none of them.
\<close>

theorem validate_raises_iff:
  "((\<exists>msg. validate c = Inl (ImproperlyConfigured msg)) \<longleftrightarrow> spec_invalid c)
   \<and> (validate c = Inr () \<longleftrightarrow> \<not> spec_invalid c)"
proof -
  have "(\<exists>msg. validate c = Inl (ImproperlyConfigured msg)) \<longleftrightarrow> validate c \<noteq> Inr ()"
  proof (cases "validate c")
    case (Inl e)
    then show ?thesis using validate_Inl_cases [of c e] by auto
  next
    case (Inr u)
    then show ?thesis by simp
  qed
  then show ?thesis by (simp add: validate_Inr_iff)
qed

theorem validate_raises_iff_witness:
  "\<not> spec_invalid (config (example_api ''user:md5''))
   \<and> validate (config (example_api ''user:md5'')) = Inr ()
   \<and> spec_invalid (config (example_api ''token''))
   \<and> (\<exists>msg. validate (config (example_api ''token'')) = Inl (ImproperlyConfigured msg))"
  using validate_raises_iff [of "config (example_api ''user:md5'')"]
        validate_raises_iff [of "config (example_api ''token'')"]
        example_valid_md5 example_invalid
  by simp

section \<open>Request preparation\<close>

lemma prepare_with_invalid:
  "validate (config api) = Inl e \<Longrightarrow> prepare_with h tail params keep api = (Inl e, api, params)"
  by (simp add: prepare_with_def)

lemma prepare_with_filters:
  assumes "validate (config api) = Inr ()"
  shows "filters (fst (snd (prepare_with h tail params keep api))) = (if keep then filters api else [])"
proof -
  have "truthy (md5_hash (config api)) \<or> auth_method (config api) \<noteq> Some ''user:md5''
        \<or> (\<exists>pw. password (config api) = Some pw)"
    using valid_md5_password [OF assms] by blast
  then show ?thesis
    using assms by (auto simp: prepare_with_def Let_def split: option.splits)
qed

lemma prepare_with_params:
  assumes "validate (config api) = Inr ()" and "k \<noteq> ''user:pass''" and "k \<noteq> ''user:md5''"
  shows "snd (snd (prepare_with h tail params keep api)) k = fold dict_update (filters api) params k"
  using assms by (auto simp: prepare_with_def Let_def split: option.splits)

lemma prepare_with_returns:
  assumes "validate (config api) = Inr ()"
  shows "fst (prepare_with h tail params keep api)
           = Inr (base_url @ tail, snd (snd (prepare_with h tail params keep api)))"
proof -
  have "truthy (md5_hash (config api)) \<or> auth_method (config api) \<noteq> Some ''user:md5''
        \<or> (\<exists>pw. password (config api) = Some pw)"
    using valid_md5_password [OF assms] by blast
  then show ?thesis
    using assms by (auto simp: prepare_with_def Let_def split: option.splits)
qed

text \<open>
  Claim C3. For every dispatcher state with a valid configuration, \<^verbatim>\<open>prepare\<close> with
  \<^verbatim>\<open>keep=False\<close> leaves the filter list empty and with \<^verbatim>\<open>keep=True\<close> leaves it as it
  was; in both cases the call returns, and the parameters it returns hold the merged
  filters (every key other than the two authentication keys has the value that merging
  the accumulated filters into the caller's parameters gives it).
\<close>

theorem prepare_keep_filters:
  assumes "validate (config api) = Inr ()"
  shows "filters (fst (snd (prepare tail params False api))) = []
       \<and> filters (fst (snd (prepare tail params True api))) = filters api
       \<and> (\<forall>keep. fst (prepare tail params keep api)
                    = Inr (base_url @ tail, snd (snd (prepare tail params keep api)))
             \<and> (\<forall>k. k \<noteq> ''user:pass'' \<longrightarrow> k \<noteq> ''user:md5'' \<longrightarrow>
                  snd (snd (prepare tail params keep api)) k
                    = fold dict_update (filters api) params k))"
  using prepare_with_filters [OF assms, of md5_hexdigest tail params]
        prepare_with_params [OF assms, of _ md5_hexdigest tail params]
        prepare_with_returns [OF assms, of md5_hexdigest tail params]
  by (simp add: prepare_def)

theorem prepare_keep_filters_witness:
  "validate (config (example_api ''user:pass'')) = Inr ()
   \<and> filters (fst (snd (prepare ''head/survey'' example_params False (example_api ''user:pass'')))) = []
   \<and> filters (fst (snd (prepare ''head/survey'' example_params True (example_api ''user:pass''))))
       = [[(''filter[field][0]'', ''status''), (''filter[operator][0]'', ''=''),
           (''filter[value][0]'', ''Complete'')]]
   \<and> snd (snd (prepare ''head/survey'' example_params False (example_api ''user:pass'')))
         ''filter[value][0]'' = Some ''Complete''"
  using prepare_keep_filters [OF example_valid_pass, of "''head/survey''" example_params]
        example_valid_pass
  by (simp add: example_defs Let_def dict_update_def)

text \<open>
  Claim C10. When \<^verbatim>\<open>validate()\<close> fails on the dispatcher's configuration, \<^verbatim>\<open>prepare\<close>
  raises that same error, which is a configuration error, and the dispatcher (its filter
  list included) and the caller's parameter dictionary are what they were before the call.
\<close>

theorem prepare_invalid_atomic:
  assumes "validate (config api) = Inl e"
  shows "prepare tail params keep api = (Inl e, api, params) \<and> (\<exists>msg. e = ImproperlyConfigured msg)"
  using assms validate_Inl_cases [OF assms] by (simp add: prepare_def prepare_with_invalid)

theorem prepare_invalid_atomic_witness:
  "validate (config (example_api ''token'')) = Inl (ImproperlyConfigured ''No authentication method provided.'')
   \<and> prepare ''head/survey'' example_params False (example_api ''token'')
       = (Inl (ImproperlyConfigured ''No authentication method provided.''),
          example_api ''token'', example_params)
   \<and> filters (example_api ''token'')
       = [[(''filter[field][0]'', ''status''), (''filter[operator][0]'', ''=''),
           (''filter[value][0]'', ''Complete'')]]"
  using prepare_invalid_atomic [OF example_invalid, of "''head/survey''" example_params False]
        example_invalid
  by (simp add: example_defs Let_def)

text \<open>
  Claim C8. For a valid configuration whose method is \<^verbatim>\<open>user:pass\<close>, \<^verbatim>\<open>prepare\<close> returns
  the URL \<^verbatim>\<open>https://restapi.surveygizmo.com/\<close> followed by the tail, and the parameters
  with the filters merged and the one entry \<^verbatim>\<open>user:pass\<close> set to the user name, a colon and
  the password. The dispatcher changes in its filter list only: its session and
  configuration are untouched, and \<^verbatim>\<open>prepare\<close> has no access to the transport.
\<close>

theorem prepare_user_pass:
  assumes "validate (config api) = Inr ()" and "auth_method (config api) = Some ''user:pass''"
  shows "\<exists>u p. username (config api) = Some u \<and> password (config api) = Some p
          \<and> prepare tail params keep api =
              (Inr (''https://restapi.surveygizmo.com/'' @ tail,
                    (fold dict_update (filters api) params)(''user:pass'' \<mapsto> u @ '':'' @ p)),
               api\<lparr>filters := (if keep then filters api else [])\<rparr>,
               (fold dict_update (filters api) params)(''user:pass'' \<mapsto> u @ '':'' @ p))"
proof -
  from validate_valid_cases [OF assms(1)] assms(2)
  have "truthy (username (config api))" and "truthy (password (config api))" by auto
  then obtain u p where "username (config api) = Some u" "password (config api) = Some p"
    using truthy_Some by blast
  then show ?thesis
    using assms by (simp add: prepare_def prepare_with_def Let_def fmt_s_def base_url_def)
qed
theorem prepare_user_pass_witness:
  "validate (config (example_api ''user:pass'')) = Inr ()
   \<and> auth_method (config (example_api ''user:pass'')) = Some ''user:pass''
   \<and> fst (prepare ''head/survey'' example_params False (example_api ''user:pass''))
       = Inr (''https://restapi.surveygizmo.com/head/survey'',
              [''page'' \<mapsto> ''2'', ''filter[field][0]'' \<mapsto> ''status'',
               ''filter[operator][0]'' \<mapsto> ''='', ''filter[value][0]'' \<mapsto> ''Complete'',
               ''user:pass'' \<mapsto> ''bob:secret''])"
proof -
  have a: "auth_method (config (example_api ''user:pass'')) = Some ''user:pass''"
    by (simp add: example_defs Let_def)
  from prepare_user_pass [OF example_valid_pass a, of "''head/survey''" example_params False]
  show ?thesis
    using example_valid_pass a
    by (auto simp: example_defs Let_def dict_update_def)
qed

section \<open>Filters\<close>

lemma digit_char_inj: "a < 10 \<Longrightarrow> b < 10 \<Longrightarrow> digit_char a = digit_char b \<Longrightarrow> a = b"
  by (simp add: digit_char_def nth_eq_iff_index_eq)

lemma string_of_nat_small: "n < 10 \<Longrightarrow> string_of_nat n = [digit_char n]"
  by (subst string_of_nat.simps) simp

lemma string_of_nat_big:
  "\<not> n < 10 \<Longrightarrow> string_of_nat n = string_of_nat (n div 10) @ [digit_char (n mod 10)]"
  by (subst string_of_nat.simps) simp

lemma string_of_nat_nonempty: "string_of_nat n \<noteq> []"
  by (subst string_of_nat.simps) simp

lemma string_of_nat_inj: "string_of_nat a = string_of_nat b \<Longrightarrow> a = b"
proof (induction a arbitrary: b rule: string_of_nat.induct)
  case (1 n)
  show ?case
  proof (cases "n < 10")
    case small: True
    show ?thesis
    proof (cases "b < 10")
      case True
      with small "1.prems" show ?thesis
        by (simp add: string_of_nat_small digit_char_inj)
    next
      case False
      with small "1.prems" string_of_nat_nonempty [of "b div 10"] show ?thesis
        by (simp add: string_of_nat_small string_of_nat_big Cons_eq_append_conv)
    qed
  next
    case big: False
    show ?thesis
    proof (cases "b < 10")
      case True
      with big "1.prems" string_of_nat_nonempty [of "n div 10"] show ?thesis
        by (simp add: string_of_nat_small string_of_nat_big append_eq_Cons_conv)
    next
      case False
      with big "1.prems"
      have s: "string_of_nat (n div 10) = string_of_nat (b div 10)"
        and d: "digit_char (n mod 10) = digit_char (b mod 10)"
        by (simp_all add: string_of_nat_big)
      from "1.IH" [OF big s] have q: "n div 10 = b div 10" .
      from d have r: "n mod 10 = b mod 10"
        by (intro digit_char_inj) simp_all
      from q r show ?thesis
        by (metis div_mult_mod_eq)
    qed
  qed
qed

lemma filter_key_eq_iff [simp]:
  "filter_key p i = filter_key p j \<longleftrightarrow> i = j"
  by (auto simp: filter_key_def dest: string_of_nat_inj)

lemma filter_key_neq [simp]:
  "filter_key ''field'' i \<noteq> filter_key ''operator'' j"
  "filter_key ''field'' i \<noteq> filter_key ''value'' j"
  "filter_key ''operator'' i \<noteq> filter_key ''field'' j"
  "filter_key ''operator'' i \<noteq> filter_key ''value'' j"
  "filter_key ''value'' i \<noteq> filter_key ''field'' j"
  "filter_key ''value'' i \<noteq> filter_key ''operator'' j"
  by (simp_all add: filter_key_def)

lemma filter_key_not_auth [simp]:
  "filter_key ''field'' i \<noteq> ''user:pass''" "filter_key ''field'' i \<noteq> ''user:md5''"
  "filter_key ''operator'' i \<noteq> ''user:pass''" "filter_key ''operator'' i \<noteq> ''user:md5''"
  "filter_key ''value'' i \<noteq> ''user:pass''" "filter_key ''value'' i \<noteq> ''user:md5''"
  by (simp_all add: filter_key_def)

lemma filters_add_filter:
  "filters (add_filter f operator v api) = filters api @ [filter_entry (length (filters api)) (f, operator, v)]"
  by (simp add: add_filter_def filter_entry_def Let_def)

lemma config_add_filter [simp]: "config (add_filter f operator v api) = config api"
  by (simp add: add_filter_def Let_def)

lemma config_add_filters [simp]: "config (add_filters ts api) = config api"
  by (induction ts arbitrary: api) auto

lemma filters_add_filters:
  "filters (add_filters ts api) =
     filters api @ map (\<lambda>i. filter_entry (length (filters api) + i) (ts ! i)) [0..<length ts]"
proof (induction ts arbitrary: api)
  case Nil
  then show ?case by simp
next
  case (Cons t ts)
  obtain f operator v where t: "t = (f, operator, v)" by (cases t)
  have "map (\<lambda>i. filter_entry (length (filters api) + i) ((t # ts) ! i)) [0..<length (t # ts)]
        = filter_entry (length (filters api)) t
          # map (\<lambda>i. filter_entry (Suc (length (filters api)) + i) (ts ! i)) [0..<length ts]"
    by (simp add: upt_conv_Cons map_Suc_upt [symmetric] del: upt_Suc)
  then show ?case
    using Cons.IH [of "add_filter f operator v api"]
    by (simp add: t filters_add_filter)
qed

lemma dict_update_entry:
  "dict_update (filter_entry i (f, operator, v)) m =
     m(filter_key ''field'' i \<mapsto> py_str f, filter_key ''operator'' i \<mapsto> py_str operator,
       filter_key ''value'' i \<mapsto> py_str v)"
  by (simp add: dict_update_def filter_entry_def)

lemma merge_entries:
  assumes "i < n" and "ts ! i = (f, operator, v)"
  shows "fold dict_update (map (\<lambda>i. filter_entry i (ts ! i)) [0..<n]) params (filter_key ''field'' i)
           = Some (py_str f)
       \<and> fold dict_update (map (\<lambda>i. filter_entry i (ts ! i)) [0..<n]) params (filter_key ''operator'' i)
           = Some (py_str operator)
       \<and> fold dict_update (map (\<lambda>i. filter_entry i (ts ! i)) [0..<n]) params (filter_key ''value'' i)
           = Some (py_str v)"
  using assms
proof (induction n)
  case 0
  then show ?case by simp
next
  case (Suc n)
  obtain f' operator' v' where last: "ts ! n = (f', operator', v')" by (cases "ts ! n")
  show ?case
  proof (cases "i = n")
    case True
    with Suc.prems last show ?thesis
      by (simp add: dict_update_entry)
  next
    case False
    with Suc.prems have "i < n" by simp
    from Suc.IH [OF this Suc.prems(2)] False show ?thesis
      by (simp add: dict_update_entry last)
  qed
qed

text \<open>
  Claim C4. On a dispatcher with no accumulated filter, calling \<^verbatim>\<open>add_filter\<close> once for
  each of \<open>n\<close> triples leaves exactly \<open>n\<close> entries; entry \<open>i\<close> is the dictionary of the
  three keys \<^verbatim>\<open>filter[field][i]\<close>, \<^verbatim>\<open>filter[operator][i]\<close>, \<^verbatim>\<open>filter[value][i]\<close> with the
  \<^verbatim>\<open>str()\<close> of the three arguments of the \<open>i\<close>-th call; and after \<^verbatim>\<open>prepare\<close> (on a valid
  configuration) the returned parameters hold these values under these same keys.
\<close>

theorem add_filter_indices:
  assumes "filters api = []"
  shows "length (filters (add_filters ts api)) = length ts
       \<and> (\<forall>i<length ts. \<forall>f operator v. ts ! i = (f, operator, v) \<longrightarrow>
            filters (add_filters ts api) ! i =
              [(''filter[field]['' @ string_of_nat i @ '']'', py_str f),
               (''filter[operator]['' @ string_of_nat i @ '']'', py_str operator),
               (''filter[value]['' @ string_of_nat i @ '']'', py_str v)]
            \<and> (validate (config api) = Inr () \<longrightarrow>
                 (\<forall>tail params keep.
                    snd (snd (prepare tail params keep (add_filters ts api)))
                      (''filter[field]['' @ string_of_nat i @ '']'') = Some (py_str f)
                  \<and> snd (snd (prepare tail params keep (add_filters ts api)))
                      (''filter[operator]['' @ string_of_nat i @ '']'') = Some (py_str operator)
                  \<and> snd (snd (prepare tail params keep (add_filters ts api)))
                      (''filter[value]['' @ string_of_nat i @ '']'') = Some (py_str v))))"
proof -
  have fs: "filters (add_filters ts api) = map (\<lambda>i. filter_entry i (ts ! i)) [0..<length ts]"
    using assms by (simp add: filters_add_filters)
  have keys: "\<And>i. ''filter[field]['' @ string_of_nat i @ '']'' = filter_key ''field'' i"
    "\<And>i. ''filter[operator]['' @ string_of_nat i @ '']'' = filter_key ''operator'' i"
    "\<And>i. ''filter[value]['' @ string_of_nat i @ '']'' = filter_key ''value'' i"
    by (simp_all add: filter_key_def)
  show ?thesis
  proof (intro conjI allI impI)
    show "length (filters (add_filters ts api)) = length ts"
      by (simp add: fs)
  next
    fix i f operator v
    assume i: "i < length ts" and t: "ts ! i = (f, operator, v)"
    then show "filters (add_filters ts api) ! i =
              [(''filter[field]['' @ string_of_nat i @ '']'', py_str f),
               (''filter[operator]['' @ string_of_nat i @ '']'', py_str operator),
               (''filter[value]['' @ string_of_nat i @ '']'', py_str v)]"
      by (simp add: fs filter_entry_def filter_key_def)
  next
    fix i f operator v tail params keep
    assume i: "i < length ts" and t: "ts ! i = (f, operator, v)"
      and valid: "validate (config api) = Inr ()"
    have v': "validate (config (add_filters ts api)) = Inr ()"
      using valid by simp
    note m = merge_entries [OF i t, of params]
    note p = prepare_with_params [OF v', of _ md5_hexdigest tail params keep]
    show "snd (snd (prepare tail params keep (add_filters ts api)))
            (''filter[field]['' @ string_of_nat i @ '']'') = Some (py_str f)"
      unfolding keys prepare_def using m by (simp add: p fs)
    show "snd (snd (prepare tail params keep (add_filters ts api)))
            (''filter[operator]['' @ string_of_nat i @ '']'') = Some (py_str operator)"
      unfolding keys prepare_def using m by (simp add: p fs)
    show "snd (snd (prepare tail params keep (add_filters ts api)))
            (''filter[value]['' @ string_of_nat i @ '']'') = Some (py_str v)"
      unfolding keys prepare_def using m by (simp add: p fs)
  qed
qed

theorem add_filter_indices_witness:
  "filters (API_init (config (example_api ''user:pass'')) :: nat API) = []
   \<and> length (filters (add_filters example_filters (API_init (config (example_api ''user:pass'')) :: nat API))) = 2
   \<and> filters (add_filters example_filters (API_init (config (example_api ''user:pass'')) :: nat API)) ! 1
       = [(''filter[field][1]'', ''id''), (''filter[operator][1]'', ''>''), (''filter[value][1]'', ''12'')]
   \<and> snd (snd (prepare ''head/survey'' example_params True
                 (add_filters example_filters (API_init (config (example_api ''user:pass'')) :: nat API))))
         ''filter[value][1]'' = Some ''12''"
proof -
  have e: "filters (API_init (config (example_api ''user:pass'')) :: nat API) = []"
    by (simp add: API_init_def)
  have v: "validate (config (API_init (config (example_api ''user:pass'')) :: nat API)) = Inr ()"
    using example_valid_pass by (simp add: API_init_def)
  have t: "example_filters ! 1 = (PStr ''id'', PStr ''>'', PInt 12)" "(1::nat) < length example_filters"
    by (simp_all add: example_filters_def)
  note all = add_filter_indices [OF e, of example_filters]
  note entry = all [THEN conjunct2, rule_format, OF t(2) t(1)]
  note merged = entry [THEN conjunct2, rule_format, OF v,
      where tail = "''head/survey''" and params = example_params and keep = True]
  have "length (filters (add_filters example_filters
          (API_init (config (example_api ''user:pass'')) :: nat API))) = 2"
    using all [THEN conjunct1] by (simp add: example_filters_def)
  moreover
  have "filters (add_filters example_filters
          (API_init (config (example_api ''user:pass'')) :: nat API)) ! 1
        = [(''filter[field][1]'', ''id''), (''filter[operator][1]'', ''>''), (''filter[value][1]'', ''12'')]"
    using entry [THEN conjunct1] by (simp add: string_of_nat.simps digit_char_def)
  moreover
  have "snd (snd (prepare ''head/survey'' example_params True
                 (add_filters example_filters (API_init (config (example_api ''user:pass'')) :: nat API))))
         ''filter[value][1]'' = Some ''12''"
    using merged [THEN conjunct2, THEN conjunct2] by (simp add: string_of_nat.simps digit_char_def)
  ultimately show ?thesis
    using e by simp
qed


section \<open>The stored MD5 hash\<close>

lemma replicate_eval: "replicate n x = (if n = 0 then [] else x # replicate (n - 1) x)"
  by (cases n) simp_all

lemma upt_eval: "[i..<j] = (if i < j then i # [Suc i..<j] else [])"
  by (simp add: upt_conv_Cons)

lemma md5_secret: "md5_hexdigest ''secret'' = ''5ebe2294ecd0e0f08eab7690d2a6ee69''"
  by (simp add: md5_hexdigest_def md5_digest_def hex_byte_def md5_pad_def replicate_eval md5_word_def
        md5_f_def md5_g_def add32_def rotl32_def not32_def md5_K_def md5_s_def le_bytes_def upt_eval)

lemma length_le_bytes: "length (le_bytes n x) = n"
  by (simp add: le_bytes_def)

lemma length_md5_digest: "length (md5_digest m) = 16"
  by (simp add: md5_digest_def length_le_bytes split: prod.splits)

lemma length_hex_bytes: "length (concat (map hex_byte bs)) = 2 * length bs"
  by (induction bs) (simp_all add: hex_byte_def)

lemma length_md5_hexdigest: "length (md5_hexdigest s) = 32"
  by (simp add: md5_hexdigest_def length_hex_bytes length_md5_digest)

lemma md5_hexdigest_nonempty: "md5_hexdigest s \<noteq> []"
  using length_md5_hexdigest [of s] by auto

lemma validate_md5_hash_update:
  assumes "validate c = Inr ()" and "h \<noteq> []"
  shows "validate (c\<lparr>md5_hash := Some h\<rparr>) = Inr ()"
  using assms unfolding validate_def
  by (auto simp: truthy_def split: sum.splits if_splits)

lemma prepare_with_md5_first:
  assumes "validate (config api) = Inr ()" and "auth_method (config api) = Some ''user:md5''"
    and "\<not> truthy (md5_hash (config api))" and "password (config api) = Some pw"
  shows "prepare_with h tail params keep api =
           (Inr (base_url @ tail,
                 (fold dict_update (filters api) params)
                   (''user:md5'' \<mapsto> fmt_s (username (config api)) @ '':'' @ h pw)),
            api\<lparr>filters := (if keep then filters api else []),
                config := (config api)\<lparr>md5_hash := Some (h pw)\<rparr>\<rparr>,
            (fold dict_update (filters api) params)
              (''user:md5'' \<mapsto> fmt_s (username (config api)) @ '':'' @ h pw))"
  using assms by (simp add: prepare_with_def Let_def)

lemma prepare_with_md5_stored:
  assumes "validate (config api) = Inr ()" and "auth_method (config api) = Some ''user:md5''"
    and "md5_hash (config api) = Some hash" and "hash \<noteq> []"
  shows "prepare_with h tail params keep api =
           (Inr (base_url @ tail,
                 (fold dict_update (filters api) params)
                   (''user:md5'' \<mapsto> fmt_s (username (config api)) @ '':'' @ hash)),
            api\<lparr>filters := (if keep then filters api else [])\<rparr>,
            (fold dict_update (filters api) params)
              (''user:md5'' \<mapsto> fmt_s (username (config api)) @ '':'' @ hash))"
  using assms by (simp add: prepare_with_def Let_def truthy_def fmt_s_def)

lemma example_md5_api_valid: "validate (config example_md5_api) = Inr ()"
  by (simp add: example_md5_api_def example_defs validate_def truthy_def)

lemma nouser: "auth_method (config example_nouser_api) = Some ''user:md5''
   \<and> md5_hash (config example_nouser_api) = None
   \<and> prepare ''head/survey'' example_params False example_nouser_api
       = (Inl (ImproperlyConfigured ''Username required for 'user:md5' authentication.''),
          example_nouser_api, example_params)"
  by (simp add: prepare_def prepare_with_def example_nouser_api_def validate_def truthy_def
        SurveyGizmo_init_def API_init_def Config_init_def kwargs_get_def)

text \<open>
  Claim C2, as amended. For a configuration with method \<^verbatim>\<open>user:md5\<close> and no hash, on which
  \<^verbatim>\<open>validate()\<close> succeeds, the first \<^verbatim>\<open>prepare\<close> stores the MD5 hex digest of the password
  on the configuration. Every later \<^verbatim>\<open>prepare\<close> on the resulting dispatcher leaves that
  hash in place, sends it in the \<^verbatim>\<open>user:md5\<close> parameter and does not call the digest
  function (its result is the same whatever digest function it is given). For the password
  \<^verbatim>\<open>secret\<close> the stored hash is \<^verbatim>\<open>5ebe2294ecd0e0f08eab7690d2a6ee69\<close>.
\<close>

theorem prepare_md5_memoized:
  assumes "validate (config api) = Inr ()" and "auth_method (config api) = Some ''user:md5''"
    and "\<not> truthy (md5_hash (config api))"
  shows "\<exists>pw api1. password (config api) = Some pw
          \<and> api1 = fst (snd (prepare tail params keep api))
          \<and> md5_hash (config api1) = Some (md5_hexdigest pw)
          \<and> (\<forall>tail' params' keep'.
                md5_hash (config (fst (snd (prepare tail' params' keep' api1)))) = Some (md5_hexdigest pw)
              \<and> snd (snd (prepare tail' params' keep' api1)) ''user:md5''
                  = Some (fmt_s (username (config api)) @ '':'' @ md5_hexdigest pw)
              \<and> (\<forall>h. prepare_with h tail' params' keep' api1 = prepare tail' params' keep' api1))
          \<and> (pw = ''secret'' \<longrightarrow> md5_hash (config api1) = Some ''5ebe2294ecd0e0f08eab7690d2a6ee69'')"
proof -
  from valid_md5_password [OF assms] obtain pw where pw: "password (config api) = Some pw"
    by blast
  define api1 where "api1 = fst (snd (prepare tail params keep api))"
  have api1: "api1 = api\<lparr>filters := (if keep then filters api else []),
                config := (config api)\<lparr>md5_hash := Some (md5_hexdigest pw)\<rparr>\<rparr>"
    unfolding api1_def prepare_def by (simp add: prepare_with_md5_first [OF assms pw])
  have v1: "validate (config api1) = Inr ()"
    using validate_md5_hash_update [OF assms(1) md5_hexdigest_nonempty] by (simp add: api1)
  have a1: "auth_method (config api1) = Some ''user:md5''"
    using assms(2) by (simp add: api1)
  have h1: "md5_hash (config api1) = Some (md5_hexdigest pw)"
    by (simp add: api1)
  have u1: "username (config api1) = username (config api)"
    by (simp add: api1)
  note second = prepare_with_md5_stored [OF v1 a1 h1 md5_hexdigest_nonempty]
  have "\<forall>tail' params' keep'.
          md5_hash (config (fst (snd (prepare tail' params' keep' api1)))) = Some (md5_hexdigest pw)
        \<and> snd (snd (prepare tail' params' keep' api1)) ''user:md5''
            = Some (fmt_s (username (config api)) @ '':'' @ md5_hexdigest pw)
        \<and> (\<forall>h. prepare_with h tail' params' keep' api1 = prepare tail' params' keep' api1)"
    unfolding prepare_def by (simp add: second h1 u1)
  moreover have "pw = ''secret'' \<longrightarrow> md5_hash (config api1) = Some ''5ebe2294ecd0e0f08eab7690d2a6ee69''"
    using h1 md5_secret by simp
  ultimately show ?thesis
    using pw h1 api1_def by blast
qed

theorem prepare_md5_memoized_witness:
  "validate (config example_md5_api) = Inr ()
   \<and> auth_method (config example_md5_api) = Some ''user:md5''
   \<and> \<not> truthy (md5_hash (config example_md5_api))
   \<and> md5_hash (config (fst (snd (prepare ''head/survey'' example_params False example_md5_api))))
       = Some ''5ebe2294ecd0e0f08eab7690d2a6ee69''"
proof -
  have a: "auth_method (config example_md5_api) = Some ''user:md5''"
    and h: "\<not> truthy (md5_hash (config example_md5_api))"
    and p: "password (config example_md5_api) = Some ''secret''"
    by (simp_all add: example_md5_api_def example_defs truthy_def)
  from prepare_md5_memoized [OF example_md5_api_valid a h, of "''head/survey''" example_params False]
  show ?thesis
    using example_md5_api_valid a h p by auto
qed

text \<open>
  Claim C2 as the specification states it fails twice. The digest that the first
  \<^verbatim>\<open>prepare\<close> stores for the password \<^verbatim>\<open>secret\<close> is not the one the specification
  prints; and with no user name the configuration has method \<^verbatim>\<open>user:md5\<close> and no hash,
  yet \<^verbatim>\<open>prepare\<close> raises and stores nothing.
\<close>

theorem prepare_md5_digest_counterexample:
  "md5_hash (config (fst (snd (prepare ''head/survey'' example_params False example_md5_api))))
     = Some ''5ebe2294ecd0e0f08eab7690d2a6ee69''
   \<and> md5_hash (config (fst (snd (prepare ''head/survey'' example_params False example_md5_api))))
     \<noteq> Some ''5ebe2294ecd0e0f08eaf25572d5d12dd''
   \<and> auth_method (config example_nouser_api) = Some ''user:md5''
   \<and> md5_hash (config example_nouser_api) = None
   \<and> prepare ''head/survey'' example_params False example_nouser_api
       = (Inl (ImproperlyConfigured ''Username required for 'user:md5' authentication.''),
          example_nouser_api, example_params)"
proof -
  have p: "password (config example_md5_api) = Some ''secret''"
    and a: "auth_method (config example_md5_api) = Some ''user:md5''"
    and h: "\<not> truthy (md5_hash (config example_md5_api))"
    by (simp_all add: example_md5_api_def example_defs truthy_def)
  have "md5_hash (config (fst (snd (prepare ''head/survey'' example_params False example_md5_api))))
     = Some ''5ebe2294ecd0e0f08eab7690d2a6ee69''"
    unfolding prepare_def
    by (simp add: prepare_with_md5_first [OF example_md5_api_valid a h p] md5_secret)
  then show ?thesis
    using nouser by simp
qed

section \<open>Attribute lookup and wrapped calls\<close>

lemma instance_attr_modules: "instance_attr api ''_modules'' = None"
  by (simp add: instance_attr_def API_methods_def)

lemma API_getattr_missing:
  "instance_attr api name = None \<Longrightarrow> API_getattr d api name = Inl RecursionError"
proof (induction d arbitrary: name)
  case 0
  then show ?case by simp
next
  case (Suc d)
  from Suc.IH [OF instance_attr_modules] Suc.prems show ?case by simp
qed

text \<open>
  Claim C9 does not hold of the code. \<^verbatim>\<open>__getattr__\<close> reads \<^verbatim>\<open>self._modules\<close>, an
  attribute that no code of the class sets, so looking up an undefined name re-enters
  \<^verbatim>\<open>__getattr__\<close> until the interpreter's recursion limit. With the default limit of 1000
  frames (and, by the lemma above, with any other) the lookup of \<^verbatim>\<open>survey\<close> ends in the
  recursion error and not in \<^verbatim>\<open>AttributeError('survey')\<close>.
\<close>

theorem getattr_undefined_recursion:
  "API_getattr 1000 (example_api ''user:pass'') ''survey'' = Inl RecursionError
   \<and> API_getattr 1000 (example_api ''user:pass'') ''survey'' \<noteq> Inl (AttributeError ''survey'')"
proof -
  have "instance_attr (example_api ''user:pass'') ''survey'' = None"
    by (simp add: instance_attr_def API_methods_def)
  then show ?thesis by (simp add: API_getattr_missing)
qed

lemma wrapper_fails:
  assumes "func args (kwargs(''keep'' := None, ''url_fetch'' := None)) = Inr (tail, params)"
  shows "wrapper d T func args kwargs api = (Inl RecursionError, api)"
proof -
  have "instance_attr api ''_sg'' = None"
    by (simp add: instance_attr_def API_methods_def)
  then have "API_getattr d api ''_sg'' = Inl RecursionError"
    by (rule API_getattr_missing)
  then show ?thesis
    using assms by (simp add: wrapper_def kwargs_pop_def)
qed

text \<open>
  Claim C5 does not hold of the code. The wrapper removes \<^verbatim>\<open>keep\<close> and \<^verbatim>\<open>url_fetch\<close>
  from the keyword arguments and calls the resource function, but then reads
  \<^verbatim>\<open>self._sg\<close>, which the dispatcher does not have: the call with \<^verbatim>\<open>url_fetch=True\<close> ends
  in the recursion error of the attribute lookup instead of returning the prepared pair.
\<close>

theorem wrapper_url_fetch_fails:
  "wrapper 1000 (example_transport example_response) example_func []
     [''url_fetch'' \<mapsto> PBool True] (example_api ''user:pass'')
   = (Inl RecursionError, example_api ''user:pass'')"
proof -
  have "example_func [] ([''url_fetch'' \<mapsto> PBool True](''keep'' := None, ''url_fetch'' := None))
          = Inr (''survey'', Map.empty)"
    by (simp add: example_func_def)
  then show ?thesis
    by (simp add: wrapper_fails)
qed

section \<open>Responses\<close>

lemma execute_after_send:
  assumes "send_request T url params api = (Inr r, api')"
  shows "execute T url params api =
           (case raise_for_status r of
              Inl e \<Rightarrow> (Inl e, api')
            | Inr u \<Rightarrow>
                (if \<not> truthy (response_type (config api))
                 then (case resp_json r of Inl e \<Rightarrow> (Inl e, api') | Inr j \<Rightarrow> (Inr (RJson j), api'))
                 else (Inr (RText (resp_text r)), api')))"
  using assms by (simp add: execute_def)

lemmas example_exec_defs = example_plain_api_def example_kwargs_def SurveyGizmo_init_def
  API_init_def Config_init_def kwargs_get_def example_transport_def example_response_def
  send_request_def raise_for_status_def

text \<open>
  Claim C6, as amended. For every response that the transport returns and whose status
  check passes, \<^verbatim>\<open>execute\<close> returns what the response's \<^verbatim>\<open>json()\<close> returns when
  \<^verbatim>\<open>response_type\<close> is unset or the empty string, and the response text unchanged when
  \<^verbatim>\<open>response_type\<close> is a non-empty string.
\<close>

theorem execute_decoding:
  assumes "send_request T url params api = (Inr r, api')" and "raise_for_status r = Inr ()"
  shows "(response_type (config api) = None \<or> response_type (config api) = Some [] \<longrightarrow>
            fst (execute T url params api)
              = (case resp_json r of Inl e \<Rightarrow> Inl e | Inr j \<Rightarrow> Inr (RJson j)))
       \<and> (\<forall>t. response_type (config api) = Some t \<and> t \<noteq> [] \<longrightarrow>
            fst (execute T url params api) = Inr (RText (resp_text r)))"
  using assms
  by (auto simp: execute_after_send truthy_def split: sum.splits)

theorem execute_decoding_witness:
  \<open>fst (execute (example_transport example_response) ''https://restapi.surveygizmo.com/head/survey''
         example_params (example_plain_api None))
     = Inr (RJson (JObject [(''result'', JInt 1)]))
   \<and> fst (execute (example_transport example_response) ''https://restapi.surveygizmo.com/head/survey.xml''
         example_params (example_plain_api (Some ''xml'')))
     = Inr (RText ''{"result":1}'')\<close>
proof -
  have s: "\<And>rt url. send_request (example_transport example_response) url example_params (example_plain_api rt)
             = (Inr example_response, example_plain_api rt)"
    by (simp add: example_exec_defs)
  have ok: "raise_for_status example_response = Inr ()"
    by (simp add: example_exec_defs)
  from execute_decoding [OF s ok, of None] execute_decoding [OF s ok, of "Some ''xml''"]
  show ?thesis
    by (simp add: example_exec_defs)
qed

text \<open>
  Claim C6 as the specification states it fails for a \<^verbatim>\<open>response_type\<close> set to the empty
  string: \<^verbatim>\<open>execute\<close> tests \<^verbatim>\<open>not config.response_type\<close> and returns the decoded JSON, not
  the text.
\<close>

theorem execute_empty_response_type_counterexample:
  "response_type (config (example_plain_api (Some []))) = Some []
   \<and> fst (execute (example_transport example_response) ''https://restapi.surveygizmo.com/head/survey''
         example_params (example_plain_api (Some [])))
     = Inr (RJson (JObject [(''result'', JInt 1)]))
   \<and> fst (execute (example_transport example_response) ''https://restapi.surveygizmo.com/head/survey''
         example_params (example_plain_api (Some [])))
     \<noteq> Inr (RText (resp_text example_response))"
  by (simp add: execute_def truthy_def example_exec_defs)



end
